theory Spec2Isabelle
  imports Complex_Main "HOL-Library.Word" "HOL-Library.Sublist"
begin

section \<open>Strings and numbers of the host language\<close>

text \<open>
  A JavaScript string is a sequence of 16-bit code units. Text typed by the user and
  text received from the service is modelled as such a sequence; the fixed ASCII
  texts of the source (labels, URLs, header names) are written as HOL strings and
  turned into code units by \<open>lit\<close> where they meet user text.
\<close>

type_synonym jsstring = "16 word list"

definition lit :: "string \<Rightarrow> jsstring" where
  "lit s = map of_char s"

text \<open>
  \<open>String.prototype.trim\<close> removes leading and trailing white space and line
  terminators. The code units below are the ECMAScript \<open>WhiteSpace\<close> and
  \<open>LineTerminator\<close> productions: TAB, LF, VT, FF, CR, SP, NBSP, U+1680,
  U+2000..U+200A, U+2028, U+2029, U+202F, U+205F, U+3000 and U+FEFF.
\<close>

definition is_white_space :: "16 word \<Rightarrow> bool" where
  "is_white_space c \<longleftrightarrow>
     c = 0x9 \<or> c = 0xA \<or> c = 0xB \<or> c = 0xC \<or> c = 0xD \<or> c = 0x20 \<or> c = 0xA0 \<or>
     c = 0x1680 \<or> (0x2000 \<le> c \<and> c \<le> 0x200A) \<or> c = 0x2028 \<or> c = 0x2029 \<or>
     c = 0x202F \<or> c = 0x205F \<or> c = 0x3000 \<or> c = 0xFEFF"

definition trim :: "jsstring \<Rightarrow> jsstring" where
  "trim s = rev (dropWhile is_white_space (rev (dropWhile is_white_space s)))"

text \<open>
  A JavaScript number is an IEEE double: a finite value, one of the two infinities, or
  NaN. The finite values are embedded in the reals; the source only compares numbers
  with the constants 8, 6, 4 and tests them for truthiness, and both agree on a double
  and on the real it denotes. A comparison with NaN is false.
\<close>

datatype number = NaN | NegInfinity | Fin real | PosInfinity

fun num_ge :: "number \<Rightarrow> real \<Rightarrow> bool" where
  "num_ge NaN c = False"
| "num_ge NegInfinity c = False"
| "num_ge (Fin x) c = (c \<le> x)"
| "num_ge PosInfinity c = True"

fun num_lt :: "number \<Rightarrow> real \<Rightarrow> bool" where
  "num_lt NaN c = False"
| "num_lt NegInfinity c = True"
| "num_lt (Fin x) c = (x < c)"
| "num_lt PosInfinity c = False"

text \<open>\<open>x || 0\<close> on a number: 0, -0 and NaN are falsy and give 0.\<close>

fun or_zero :: "number \<Rightarrow> number" where
  "or_zero NaN = Fin 0"
| "or_zero (Fin x) = (if x = 0 then Fin 0 else Fin x)"
| "or_zero n = n"

text \<open>
  Decimal rendering of a natural number, as a template literal renders it;
  \<open>digit\<close> is only applied to numbers below ten.
\<close>

definition digit :: "nat \<Rightarrow> char" where
  "digit d = ''0123456789'' ! d"

function number_to_string :: "nat \<Rightarrow> string" where
  "number_to_string n =
     (if n < 10 then [digit n] else number_to_string (n div 10) @ [digit (n mod 10)])"
  by pat_completeness auto
termination
  by (relation "measure id") auto

section \<open>Data model (types.ts)\<close>

record EventDetails =
  name :: jsstring
  type :: jsstring
  requirements :: "jsstring list"
  audience :: jsstring
  format :: jsstring

record InformationSource =
  query :: jsstring
  source :: jsstring
  found_existing :: bool

record QualificationResult =
  person_name :: jsstring
  qualification_score :: number
  qualification_reasoning :: jsstring
  searches_performed :: number
  information_sources :: "InformationSource list"
  timestamp :: jsstring
  error :: "jsstring option"

section \<open>Score bands (ResultsPanel)\<close>

definition getScoreLabel :: "number \<Rightarrow> string" where
  "getScoreLabel score =
     (if num_ge score 8 then ''Highly Qualified''
      else if num_ge score 6 then ''Well Qualified''
      else if num_ge score 4 then ''Minimally Qualified''
      else ''Not Qualified'')"

text \<open>
  \<open>hasError\<close> is the value of the optional field \<open>result.error\<close>, used as a
  condition: an absent field and the empty string are both falsy. The panel is
  modelled by what it shows for the band: the spinner while loading, nothing without
  a result, and otherwise the heading under the score.
\<close>

definition truthy :: "jsstring option \<Rightarrow> bool" where
  "truthy v = (case v of None \<Rightarrow> False | Some m \<Rightarrow> m \<noteq> [])"

definition hasError :: "QualificationResult \<Rightarrow> bool" where
  "hasError result = truthy (error result)"

definition score_of :: "QualificationResult \<Rightarrow> number" where
  "score_of result = or_zero (qualification_score result)"

definition heading :: "QualificationResult \<Rightarrow> string" where
  "heading result =
     (if hasError result then ''Analysis Failed'' else getScoreLabel (score_of result))"

datatype panel = Spinner | Nothing | Shown string

definition ResultsPanel :: "QualificationResult option \<Rightarrow> bool \<Rightarrow> panel" where
  "ResultsPanel result loading =
     (if loading then Spinner
      else case result of None \<Rightarrow> Nothing | Some r \<Rightarrow> Shown (heading r))"

section \<open>The qualification form\<close>

record form_state =
  personName :: jsstring
  eventUrl :: jsstring
  useManualDetails :: bool
  eventDetails :: EventDetails
  activeTab :: string

definition initial_state :: form_state where
  "initial_state =
     \<lparr>personName = [], eventUrl = [], useManualDetails = False,
      eventDetails = \<lparr>name = [], type = [], requirements = [[]], audience = [], format = []\<rparr>,
      activeTab = ''person''\<rparr>"

subsection \<open>Requirement list handlers\<close>

text \<open>
  The callbacks of \<open>filter\<close> and \<open>map\<close> receive the element and its index;
  \<open>indexed\<close> pairs each element with its index.
\<close>

definition indexed :: "'a list \<Rightarrow> (nat \<times> 'a) list" where
  "indexed xs = zip [0 ..< length xs] xs"

definition addRequirement :: "EventDetails \<Rightarrow> EventDetails" where
  "addRequirement prev = prev\<lparr>requirements := requirements prev @ [[]]\<rparr>"

definition removeRequirement :: "nat \<Rightarrow> EventDetails \<Rightarrow> EventDetails" where
  "removeRequirement index prev =
     prev\<lparr>requirements := map snd (filter (\<lambda>(i, _). i \<noteq> index) (indexed (requirements prev)))\<rparr>"

definition updateRequirement :: "nat \<Rightarrow> jsstring \<Rightarrow> EventDetails \<Rightarrow> EventDetails" where
  "updateRequirement index v prev =
     prev\<lparr>requirements :=
       map (\<lambda>(i, req). if i = index then v else req) (indexed (requirements prev))\<rparr>"

subsection \<open>User actions\<close>

text \<open>
  One constructor per control of the form. A control acts only while it is rendered
  and enabled: the content of a tab is rendered while that tab is active, the URL
  field while \<open>useManualDetails\<close> is off, the manual fields while it is on, the
  remove button of an entry while the list has more than one entry, and the Next
  button is disabled while the trimmed person name is empty. The two tab triggers
  are always rendered and carry no \<open>disabled\<close> attribute.
\<close>

datatype action =
    ChangePersonName jsstring
  | ClickNext
  | SelectTab string
  | ChangeEventUrl jsstring
  | ClickToggle
  | ChangeName jsstring
  | ChangeType jsstring
  | ChangeAudience jsstring
  | ChangeFormat jsstring
  | ClickAddRequirement
  | ChangeRequirement nat jsstring
  | ClickRemoveRequirement nat
  | ClickBack

definition on_person :: "form_state \<Rightarrow> bool" where
  "on_person s \<longleftrightarrow> activeTab s = ''person''"

definition on_event :: "form_state \<Rightarrow> bool" where
  "on_event s \<longleftrightarrow> activeTab s = ''event''"

definition manual_shown :: "form_state \<Rightarrow> bool" where
  "manual_shown s \<longleftrightarrow> on_event s \<and> useManualDetails s"

definition toggle :: "form_state \<Rightarrow> form_state" where
  "toggle s = s\<lparr>useManualDetails := \<not> useManualDetails s\<rparr>"

fun step :: "form_state \<Rightarrow> action \<Rightarrow> form_state" where
  "step s (ChangePersonName v) = (if on_person s then s\<lparr>personName := v\<rparr> else s)"
| "step s ClickNext =
     (if on_person s \<and> trim (personName s) \<noteq> [] then s\<lparr>activeTab := ''event''\<rparr> else s)"
| "step s (SelectTab v) =
     (if v = ''person'' \<or> v = ''event'' then s\<lparr>activeTab := v\<rparr> else s)"
| "step s (ChangeEventUrl v) =
     (if on_event s \<and> \<not> useManualDetails s then s\<lparr>eventUrl := v\<rparr> else s)"
| "step s ClickToggle = (if on_event s then toggle s else s)"
| "step s (ChangeName v) =
     (if manual_shown s then s\<lparr>eventDetails := (eventDetails s)\<lparr>name := v\<rparr>\<rparr> else s)"
| "step s (ChangeType v) =
     (if manual_shown s then s\<lparr>eventDetails := (eventDetails s)\<lparr>type := v\<rparr>\<rparr> else s)"
| "step s (ChangeAudience v) =
     (if manual_shown s then s\<lparr>eventDetails := (eventDetails s)\<lparr>audience := v\<rparr>\<rparr> else s)"
| "step s (ChangeFormat v) =
     (if manual_shown s then s\<lparr>eventDetails := (eventDetails s)\<lparr>format := v\<rparr>\<rparr> else s)"
| "step s ClickAddRequirement =
     (if manual_shown s then s\<lparr>eventDetails := addRequirement (eventDetails s)\<rparr> else s)"
| "step s (ChangeRequirement i v) =
     (if manual_shown s \<and> i < length (requirements (eventDetails s))
      then s\<lparr>eventDetails := updateRequirement i v (eventDetails s)\<rparr> else s)"
| "step s (ClickRemoveRequirement i) =
     (if manual_shown s \<and> i < length (requirements (eventDetails s))
         \<and> 1 < length (requirements (eventDetails s))
      then s\<lparr>eventDetails := removeRequirement i (eventDetails s)\<rparr> else s)"
| "step s ClickBack = (if on_event s then s\<lparr>activeTab := ''person''\<rparr> else s)"

definition run :: "action list \<Rightarrow> form_state" where
  "run acts = foldl step initial_state acts"

subsection \<open>Submission (handleSubmit)\<close>

text \<open>
  The object handed to \<open>JSON.stringify\<close>: \<open>{ person_name, event_url }\<close> or
  \<open>{ person_name, event_details }\<close>.
\<close>

datatype request_body =
    UrlBody (person_name_of: jsstring) (event_url_of: jsstring)
  | ManualBody (person_name_of: jsstring) (event_details_of: EventDetails)

record request =
  url :: string
  http_method :: string
  headers :: "(string \<times> string) list"
  body :: request_body

text \<open>
  A thrown value is an instance of \<open>Error\<close>, with its message, or any other value.
  A response carries \<open>ok\<close>, \<open>status\<close> and the outcome of \<open>response.json()\<close>:
  the parsed body, taken at its declared type \<open>QualificationResult\<close> (the source
  passes it on unchecked), or the value that parsing throws.
\<close>

datatype thrown = ErrorObject jsstring | OtherValue

record response =
  ok :: bool
  status :: nat
  json :: "thrown + QualificationResult"

text \<open>
  The surroundings of a submission: what \<open>fetch\<close> yields for a request (a rejection
  or a response) and what \<open>new Date().toISOString()\<close> returns.
\<close>

record env =
  fetch :: "request \<Rightarrow> thrown + response"
  now :: jsstring

text \<open>
  What a submission does, in order, as seen from outside. The two callbacks
  \<open>onResult\<close> and \<open>onLoadingChange\<close> are the state setters of the application
  and return normally; \<open>console.error\<close> and reading the clock do so too.
\<close>

datatype event =
    PreventDefault
  | LoadingChange bool
  | Fetch request
  | ConsoleError thrown
  | Result QualificationResult

definition build_request :: "form_state \<Rightarrow> request" where
  "build_request s =
     (if useManualDetails s
      then \<lparr>url = ''http://localhost:8000/qualify'', http_method = ''POST'',
            headers = [(''Content-Type'', ''application/json'')],
            body = ManualBody (personName s)
              ((eventDetails s)\<lparr>requirements :=
                 filter (\<lambda>req. trim req \<noteq> []) (requirements (eventDetails s))\<rparr>)\<rparr>
      else \<lparr>url = ''http://localhost:8000/qualify-from-url'', http_method = ''POST'',
            headers = [(''Content-Type'', ''application/json'')],
            body = UrlBody (personName s) (eventUrl s)\<rparr>)"

text \<open>The rest of the \<open>try\<close> block once \<open>fetch\<close> has settled.\<close>

definition settle :: "thrown + response \<Rightarrow> thrown + QualificationResult" where
  "settle outcome =
     (case outcome of
        Inl e \<Rightarrow> Inl e
      | Inr r \<Rightarrow>
          if \<not> ok r
          then Inl (ErrorObject (lit ''HTTP error! status: '' @ lit (number_to_string (status r))))
          else json r)"

text \<open>\<open>error instanceof Error ? error.message : 'Unknown error'\<close>\<close>

definition error_message :: "thrown \<Rightarrow> jsstring" where
  "error_message e = (case e of ErrorObject m \<Rightarrow> m | OtherValue \<Rightarrow> lit ''Unknown error'')"

definition handleSubmit :: "env \<Rightarrow> form_state \<Rightarrow> event list" where
  "handleSubmit env s =
     PreventDefault #
     (if trim (personName s) = [] then []
      else if useManualDetails s \<and> trim (name (eventDetails s)) = [] then []
      else if \<not> useManualDetails s \<and> trim (eventUrl s) = [] then []
      else
        [LoadingChange True, Fetch (build_request s)] @
        (case settle (fetch env (build_request s)) of
           Inr result \<Rightarrow> [Result result]
         | Inl e \<Rightarrow>
             [ConsoleError e,
              Result \<lparr>person_name = personName s,
                      qualification_score = Fin 0,
                      qualification_reasoning = lit ''Error occurred: '' @ error_message e,
                      searches_performed = Fin 0,
                      information_sources = [],
                      timestamp = now env,
                      error = Some (error_message e)\<rparr>]) @
        [LoadingChange False])"

definition isFormValid :: "form_state \<Rightarrow> bool" where
  "isFormValid s \<longleftrightarrow>
     trim (personName s) \<noteq> [] \<and>
     (if useManualDetails s then trim (name (eventDetails s)) \<noteq> []
      else trim (eventUrl s) \<noteq> [])"

text \<open>Projections of a trace: the requests sent and the results handed to the caller.\<close>

fun requests :: "event list \<Rightarrow> request list" where
  "requests [] = []"
| "requests (Fetch r # es) = r # requests es"
| "requests (_ # es) = requests es"

fun results :: "event list \<Rightarrow> QualificationResult list" where
  "results [] = []"
| "results (Result r # es) = r # results es"
| "results (_ # es) = results es"

fun loading_signals :: "event list \<Rightarrow> bool list" where
  "loading_signals [] = []"
| "loading_signals (LoadingChange b # es) = b # loading_signals es"
| "loading_signals (_ # es) = loading_signals es"

subsection \<open>Concrete inputs\<close>

text \<open>
  Form states reached by a user from the initial state, and surroundings whose
  \<open>fetch\<close> settles with a fixed outcome; they serve as test inputs below.
\<close>

definition url_form :: "jsstring \<Rightarrow> jsstring \<Rightarrow> form_state" where
  "url_form person u = run [ChangePersonName person, ClickNext, ChangeEventUrl u]"

definition manual_form :: "jsstring \<Rightarrow> form_state" where
  "manual_form person =
     run [ChangePersonName person, ClickNext, ClickToggle, ChangeName (lit ''AI Summit''),
          ClickAddRequirement, ChangeRequirement 1 (lit ''a''),
          ClickAddRequirement, ChangeRequirement 2 (lit ''  ''),
          ClickAddRequirement, ChangeRequirement 3 (lit ''b'')]"

definition env_with :: "thrown + response \<Rightarrow> env" where
  "env_with outcome = \<lparr>fetch = (\<lambda>_. outcome), now = lit ''2025-01-01T00:00:00.000Z''\<rparr>"

definition sample_result :: QualificationResult where
  "sample_result =
     \<lparr>person_name = lit ''Jane Doe'', qualification_score = Fin 7.9,
      qualification_reasoning = lit ''Relevant talks'', searches_performed = Fin 3,
      information_sources = [\<lparr>query = lit ''Jane Doe'', source = lit ''web'', found_existing = False\<rparr>],
      timestamp = lit ''2025-01-01T00:00:00.000Z'', error = None\<rparr>"

section \<open>Facts about the string and list primitives\<close>

lemma all_dropWhile_iff:
  "(\<forall>x \<in> set (dropWhile P xs). P x) \<longleftrightarrow> (\<forall>x \<in> set xs. P x)"
proof
  assume all: "\<forall>x \<in> set (dropWhile P xs). P x"
  have "dropWhile P xs = []"
  proof (rule ccontr)
    assume ne: "dropWhile P xs \<noteq> []"
    then have "\<not> P (hd (dropWhile P xs))" by (rule hd_dropWhile)
    moreover have "hd (dropWhile P xs) \<in> set (dropWhile P xs)" using ne by (rule hd_in_set)
    ultimately show False using all by blast
  qed
  then show "\<forall>x \<in> set xs. P x" by (simp only: dropWhile_eq_Nil_conv)
next
  assume "\<forall>x \<in> set xs. P x"
  then show "\<forall>x \<in> set (dropWhile P xs). P x" by (blast dest: set_dropWhileD)
qed

lemma trim_empty_iff: "trim s = [] \<longleftrightarrow> (\<forall>c \<in> set s. is_white_space c)"
  by (simp add: trim_def dropWhile_eq_Nil_conv all_dropWhile_iff)

lemma indexed_remove_aux:
  "map snd (filter (\<lambda>(i, _). i \<noteq> k + index) (zip [k ..< k + length xs] xs)) =
     take index xs @ drop (Suc index) xs"
proof (induction xs arbitrary: k index)
  case Nil
  then show ?case by simp
next
  case (Cons x xs)
  let ?rest = "zip [Suc k ..< Suc k + length xs] xs"
  have z: "zip [k ..< k + length (x # xs)] (x # xs) = (k, x) # ?rest"
    by (simp add: upt_conv_Cons del: upt_Suc)
  show ?case
  proof (cases index)
    case 0
    have "\<forall>p \<in> set ?rest. fst p \<noteq> k"
      by (auto simp del: upt_Suc dest: set_zip_leftD)
    then have "filter (\<lambda>(i, _). i \<noteq> k) ?rest = ?rest"
      by (intro filter_True) (simp add: case_prod_beta del: upt_Suc)
    moreover have "map snd ?rest = xs"
      by (rule map_snd_zip) (simp del: upt_Suc)
    ultimately show ?thesis
      unfolding z using 0 by (simp del: upt_Suc)
  next
    case (Suc j)
    then show ?thesis
      unfolding z using Cons.IH[of "Suc k" j] by (simp del: upt_Suc)
  qed
qed

lemma indexed_remove:
  "map snd (filter (\<lambda>(i, _). i \<noteq> index) (indexed xs)) = take index xs @ drop (Suc index) xs"
  using indexed_remove_aux[of 0 index xs] by (simp add: indexed_def)

lemma indexed_update:
  "map (\<lambda>(i, req). if i = index then v else req) (indexed xs) = xs[index := v]"
  by (rule nth_equalityI) (auto simp: indexed_def)

lemma digit_code: "d < 10 \<Longrightarrow> (of_char (digit d) :: nat) = 48 + d"
proof -
  assume "d < 10"
  then have "d \<in> {0, 1, 2, 3, 4, 5, 6, 7, 8, 9}" by auto
  then show ?thesis by (auto simp: digit_def)
qed

lemma digit_in_digits: "d < 10 \<Longrightarrow> digit d \<in> set ''0123456789''"
proof -
  assume "d < 10"
  then have "d \<in> {0, 1, 2, 3, 4, 5, 6, 7, 8, 9}" by auto
  then show ?thesis by (auto simp: digit_def)
qed

lemma number_to_string_read_back:
  "foldl (\<lambda>a c. 10 * a + (of_char c - 48)) (0::nat) (number_to_string n) = n"
proof (induction n rule: number_to_string.induct)
  case (1 n)
  show ?case
  proof (cases "n < 10")
    case True
    then show ?thesis by (subst number_to_string.simps) (simp add: digit_code)
  next
    case False
    then have "foldl (\<lambda>a c. 10 * a + (of_char c - 48)) (0::nat) (number_to_string (n div 10)) = n div 10"
      using "1.IH" by simp
    then show ?thesis
      using False by (subst number_to_string.simps) (simp add: digit_code)
  qed
qed

lemma number_to_string_digits: "set (number_to_string n) \<subseteq> set ''0123456789''"
proof (induction n rule: number_to_string.induct)
  case (1 n)
  show ?case
  proof (cases "n < 10")
    case True
    then show ?thesis using digit_in_digits [of n] by (subst number_to_string.simps) simp
  next
    case False
    then have "set (number_to_string (n div 10)) \<subseteq> set ''0123456789''"
      using "1.IH" by simp
    then show ?thesis
      using False digit_in_digits [of "n mod 10"] by (subst number_to_string.simps) simp
  qed
qed

lemma unat_of_char: "unat (of_char c :: 16 word) = of_char c"
proof -
  have "(of_char c :: nat) < 256"
    by (cases c) (simp add: of_bool_def)
  then have lt: "(of_char c :: nat) < 2 ^ 16" by (rule order_less_trans) simp
  have "unat (of_nat (of_char c) :: 16 word) = of_char c"
    using lt by (simp add: unat_of_nat take_bit_nat_eq_self_iff)
  then show ?thesis by (simp add: of_nat_of_char)
qed

lemma code_units_read_back:
  "foldl (\<lambda>a c. 10 * a + (unat c - 48)) 0 (lit (number_to_string n)) = n"
  using number_to_string_read_back [of n]
  by (simp add: lit_def foldl_map unat_of_char)

section \<open>Score bands\<close>

lemma getScoreLabel_or_zero: "getScoreLabel (or_zero n) = getScoreLabel n"
  by (cases n) (simp_all add: getScoreLabel_def)

text \<open>
  Claim C5. The band of a score is Highly Qualified from 8 upwards, Well Qualified
  from 6 up to but excluding 8, Minimally Qualified from 4 up to but excluding 6, and
  Not Qualified below 4; the boundary values 8, 6 and 4 fall in the higher band.
  In particular 8 is Highly Qualified, 7.9 Well Qualified, 4 Minimally Qualified and
  3.9 Not Qualified.
\<close>

theorem getScoreLabel_bands:
  "(num_ge score 8 \<longrightarrow> getScoreLabel score = ''Highly Qualified'') \<and>
   (num_ge score 6 \<and> num_lt score 8 \<longrightarrow> getScoreLabel score = ''Well Qualified'') \<and>
   (num_ge score 4 \<and> num_lt score 6 \<longrightarrow> getScoreLabel score = ''Minimally Qualified'') \<and>
   (num_lt score 4 \<longrightarrow> getScoreLabel score = ''Not Qualified'')"
  by (cases score) (simp_all add: getScoreLabel_def)

theorem getScoreLabel_bands_witness:
  "(num_ge (Fin 8) 8 \<and> getScoreLabel (Fin 8) = ''Highly Qualified'') \<and>
   (num_ge (Fin 6) 6 \<and> num_lt (Fin 7.9) 8 \<and> getScoreLabel (Fin 6) = ''Well Qualified''
      \<and> getScoreLabel (Fin 7.9) = ''Well Qualified'') \<and>
   (num_ge (Fin 4) 4 \<and> num_lt (Fin 4) 6 \<and> getScoreLabel (Fin 4) = ''Minimally Qualified'') \<and>
   (num_lt (Fin 3.9) 4 \<and> getScoreLabel (Fin 3.9) = ''Not Qualified'')"
  using getScoreLabel_bands [of "Fin 8"] getScoreLabel_bands [of "Fin 6"]
    getScoreLabel_bands [of "Fin 7.9"] getScoreLabel_bands [of "Fin 4"]
    getScoreLabel_bands [of "Fin 3.9"]
  by simp

text \<open>
  Claim C6, as stated: a result whose \<open>error\<close> field is present is shown as a
  failure whatever its score. It fails for a result whose \<open>error\<close> is the empty
  string: the field is present, and the panel shows the band of the score.
\<close>

theorem empty_error_shows_band:
  "error \<lparr>person_name = lit ''Jane Doe'', qualification_score = Fin 9,
           qualification_reasoning = [], searches_performed = Fin 0,
           information_sources = [], timestamp = [], error = Some []\<rparr> \<noteq> None \<and>
   ResultsPanel
     (Some \<lparr>person_name = lit ''Jane Doe'', qualification_score = Fin 9,
            qualification_reasoning = [], searches_performed = Fin 0,
            information_sources = [], timestamp = [], error = Some []\<rparr>) False
     = Shown ''Highly Qualified''"
  by (simp add: ResultsPanel_def heading_def hasError_def truthy_def score_of_def
      getScoreLabel_def)

text \<open>
  Claim C6, amended. A result whose \<open>error\<close> field is present and not the empty
  string is shown as a failure whatever its score; a result whose \<open>error\<close> is
  absent or empty is shown with the band of its score.
\<close>

theorem nonempty_error_overrides_band:
  "(\<forall>m. error result = Some m \<and> m \<noteq> [] \<longrightarrow>
      ResultsPanel (Some result) False = Shown ''Analysis Failed'') \<and>
   (error result = None \<or> error result = Some [] \<longrightarrow>
      ResultsPanel (Some result) False = Shown (getScoreLabel (qualification_score result)))"
  by (auto simp: ResultsPanel_def heading_def hasError_def truthy_def score_of_def
      getScoreLabel_or_zero)

theorem nonempty_error_overrides_band_witness:
  "ResultsPanel
     (Some \<lparr>person_name = lit ''Jane Doe'', qualification_score = Fin 9,
            qualification_reasoning = [], searches_performed = Fin 0,
            information_sources = [], timestamp = [],
            error = Some (lit ''fetch failed'')\<rparr>) False = Shown ''Analysis Failed'' \<and>
   ResultsPanel
     (Some \<lparr>person_name = lit ''Jane Doe'', qualification_score = Fin 9,
            qualification_reasoning = [], searches_performed = Fin 0,
            information_sources = [], timestamp = [], error = None\<rparr>) False
     = Shown ''Highly Qualified''"
  using nonempty_error_overrides_band
      [of "\<lparr>person_name = lit ''Jane Doe'', qualification_score = Fin 9,
            qualification_reasoning = [], searches_performed = Fin 0,
            information_sources = [], timestamp = [],
            error = Some (lit ''fetch failed'')\<rparr>"]
    nonempty_error_overrides_band
      [of "\<lparr>person_name = lit ''Jane Doe'', qualification_score = Fin 9,
            qualification_reasoning = [], searches_performed = Fin 0,
            information_sources = [], timestamp = [], error = None\<rparr>"]
  by (simp add: lit_def getScoreLabel_def)


section \<open>Form state\<close>

lemma requirements_update:
  "requirements (updateRequirement i v d) = (requirements d)[i := v]"
  by (simp add: updateRequirement_def indexed_update)

lemma requirements_remove:
  "requirements (removeRequirement i d) = take i (requirements d) @ drop (Suc i) (requirements d)"
  by (simp add: removeRequirement_def indexed_remove)

lemma step_keeps_nonempty:
  "1 \<le> length (requirements (eventDetails s)) \<Longrightarrow>
   1 \<le> length (requirements (eventDetails (step s a)))"
  by (cases a)
    (auto simp: requirements_remove requirements_update addRequirement_def toggle_def)

lemma foldl_step_nonempty:
  "1 \<le> length (requirements (eventDetails s)) \<Longrightarrow>
   1 \<le> length (requirements (eventDetails (foldl step s acts)))"
  by (induction acts arbitrary: s) (simp_all add: step_keeps_nonempty del: One_nat_def)

lemma toggle_funpow_fields:
  "eventUrl ((toggle ^^ n) s) = eventUrl s \<and> eventDetails ((toggle ^^ n) s) = eventDetails s \<and>
   personName ((toggle ^^ n) s) = personName s \<and> activeTab ((toggle ^^ n) s) = activeTab s"
  by (induction n) (simp_all add: toggle_def)

lemma next_refused_when_person_blank:
  "trim (personName s) = [] \<Longrightarrow> step s ClickNext = s"
  by simp

text \<open>
  Claim C7 says that every trigger of the step from the person tab to the event tab
  is refused while the trimmed person name is empty. The Next button is: clicking it
  in the initial state changes nothing. The tab trigger of the event tab is not: in
  the initial state, whose person name is empty, selecting it makes the event tab
  the active one.
\<close>

theorem event_tab_trigger_ignores_person_name:
  "trim (personName initial_state) = [] \<and>
   activeTab initial_state = ''person'' \<and>
   step initial_state ClickNext = initial_state \<and>
   activeTab (step initial_state (SelectTab ''event'')) = ''event''"
  by (simp add: initial_state_def trim_def on_person_def)

text \<open>
  Claim C8. Toggling the submission mode any number of times leaves the event URL
  and every manual field (name, type, audience, format, requirements) as they were,
  each toggle flips the mode, and two toggles restore the whole form state; the same
  holds for two clicks on the toggle control.
\<close>

theorem toggle_involution:
  "toggle (toggle s) = s \<and>
   useManualDetails (toggle s) = (\<not> useManualDetails s) \<and>
   eventUrl ((toggle ^^ n) s) = eventUrl s \<and>
   name (eventDetails ((toggle ^^ n) s)) = name (eventDetails s) \<and>
   type (eventDetails ((toggle ^^ n) s)) = type (eventDetails s) \<and>
   audience (eventDetails ((toggle ^^ n) s)) = audience (eventDetails s) \<and>
   format (eventDetails ((toggle ^^ n) s)) = format (eventDetails s) \<and>
   requirements (eventDetails ((toggle ^^ n) s)) = requirements (eventDetails s) \<and>
   step (step s ClickToggle) ClickToggle = s"
  by (simp add: toggle_funpow_fields) (simp add: toggle_def on_event_def)

text \<open>
  Claim C9. In every state reached from the initial one by user actions the
  requirements list has at least one entry; the remove control does nothing on a list
  of fewer than two entries; and updating position \<open>i\<close> keeps the length of the
  list, puts the new value at \<open>i\<close> and leaves every other entry, and every other
  field of the event details, where it was.
\<close>

theorem requirements_never_empty:
  "1 \<le> length (requirements (eventDetails (run acts))) \<and>
   (length (requirements (eventDetails s)) < 2 \<longrightarrow> step s (ClickRemoveRequirement i) = s) \<and>
   length (requirements (updateRequirement i v d)) = length (requirements d) \<and>
   (\<forall>j < length (requirements d).
      requirements (updateRequirement i v d) ! j = (if j = i then v else requirements d ! j)) \<and>
   name (updateRequirement i v d) = name d \<and> type (updateRequirement i v d) = type d \<and>
   audience (updateRequirement i v d) = audience d \<and> format (updateRequirement i v d) = format d"
proof -
  have "1 \<le> length (requirements (eventDetails (run acts)))"
    unfolding run_def by (rule foldl_step_nonempty) (simp add: initial_state_def)
  moreover have "length (requirements (eventDetails s)) < 2 \<longrightarrow>
      step s (ClickRemoveRequirement i) = s"
    by simp
  moreover have "\<forall>j < length (requirements d).
      requirements (updateRequirement i v d) ! j = (if j = i then v else requirements d ! j)"
    by (simp add: requirements_update)
  moreover have "name (updateRequirement i v d) = name d \<and> type (updateRequirement i v d) = type d \<and>
      audience (updateRequirement i v d) = audience d \<and> format (updateRequirement i v d) = format d"
    by (simp add: updateRequirement_def)
  ultimately show ?thesis
    by (simp add: requirements_update)
qed

theorem requirements_never_empty_witness:
  "1 \<le> length (requirements (eventDetails (run [SelectTab ''event'', ClickToggle,
      ClickAddRequirement, ClickRemoveRequirement 0, ClickRemoveRequirement 0]))) \<and>
   length (requirements (eventDetails initial_state)) < 2 \<and>
   step initial_state (ClickRemoveRequirement 0) = initial_state \<and>
   (1::nat) < length (requirements \<lparr>name = [], type = [], requirements = [lit ''a'', lit ''b''],
                              audience = [], format = []\<rparr>) \<and>
   requirements (updateRequirement 1 (lit ''c'')
     \<lparr>name = [], type = [], requirements = [lit ''a'', lit ''b''], audience = [], format = []\<rparr>) ! 1
     = lit ''c'' \<and>
   requirements (updateRequirement 1 (lit ''c'')
     \<lparr>name = [], type = [], requirements = [lit ''a'', lit ''b''], audience = [], format = []\<rparr>) ! 0
     = lit ''a''"
  using requirements_never_empty
      [where acts = "[SelectTab ''event'', ClickToggle, ClickAddRequirement,
          ClickRemoveRequirement 0, ClickRemoveRequirement 0]"
        and s = initial_state and i = 0]
    requirements_never_empty
      [where i = 1 and v = "lit ''c''"
        and d = "\<lparr>name = [], type = [], requirements = [lit ''a'', lit ''b''],
                  audience = [], format = []\<rparr>"]
  by (simp add: initial_state_def)

section \<open>Submission\<close>

lemma handleSubmit_invalid:
  "\<not> isFormValid s \<Longrightarrow> handleSubmit env s = [PreventDefault]"
  by (auto simp: handleSubmit_def isFormValid_def split: if_splits)

lemma handleSubmit_valid:
  "isFormValid s \<Longrightarrow>
   handleSubmit env s =
     [PreventDefault, LoadingChange True, Fetch (build_request s)] @
     (case settle (fetch env (build_request s)) of
        Inr result \<Rightarrow> [Result result]
      | Inl e \<Rightarrow>
          [ConsoleError e,
           Result \<lparr>person_name = personName s, qualification_score = Fin 0,
                   qualification_reasoning = lit ''Error occurred: '' @ error_message e,
                   searches_performed = Fin 0, information_sources = [],
                   timestamp = now env, error = Some (error_message e)\<rparr>]) @
     [LoadingChange False]"
  by (auto simp: handleSubmit_def isFormValid_def split: if_splits)

lemma requests_valid:
  "isFormValid s \<Longrightarrow> requests (handleSubmit env s) = [build_request s]"
  by (simp add: handleSubmit_valid split: sum.splits)

lemma settle_cases:
  "settle (Inl e) = Inl e"
  "\<not> ok r \<Longrightarrow> settle (Inr r) =
     Inl (ErrorObject (lit ''HTTP error! status: '' @ lit (number_to_string (status r))))"
  "ok r \<Longrightarrow> settle (Inr r) = json r"
  by (simp_all add: settle_def)

lemma one_result:
  "isFormValid s \<Longrightarrow> length (results (handleSubmit env s)) = 1"
  by (simp add: handleSubmit_valid split: sum.splits)

lemma loading_once:
  "isFormValid s \<Longrightarrow> loading_signals (handleSubmit env s) = [True, False]"
  by (simp add: handleSubmit_valid split: sum.splits)

subsection \<open>The concrete inputs, evaluated\<close>

lemma trim_Jane_Doe: "trim (lit ''Jane Doe'') = lit ''Jane Doe''"
  by (simp add: trim_def lit_def is_white_space_def)

lemma trim_padded_Jane_Doe: "trim (lit ''  Jane Doe '') = lit ''Jane Doe''"
  by (simp add: trim_def lit_def is_white_space_def)

lemma trim_blank: "trim (lit ''  '') = []"
  by (simp add: trim_def lit_def is_white_space_def)

lemma lit_nonempty: "lit ''Jane Doe'' \<noteq> [] \<and> lit ''a'' \<noteq> [] \<and> lit ''b'' \<noteq> []"
  by (simp add: lit_def)

lemma url_form_eq:
  "trim person \<noteq> [] \<Longrightarrow>
   url_form person u =
     \<lparr>personName = person, eventUrl = u, useManualDetails = False,
      eventDetails = \<lparr>name = [], type = [], requirements = [[]], audience = [], format = []\<rparr>,
      activeTab = ''event''\<rparr>"
  by (simp add: url_form_def run_def initial_state_def on_person_def on_event_def)

lemma manual_form_eq:
  "trim person \<noteq> [] \<Longrightarrow>
   manual_form person =
     \<lparr>personName = person, eventUrl = [], useManualDetails = True,
      eventDetails = \<lparr>name = lit ''AI Summit'', type = [],
                      requirements = [[], lit ''a'', lit ''  '', lit ''b''],
                      audience = [], format = []\<rparr>,
      activeTab = ''event''\<rparr>"
  by (simp add: manual_form_def run_def initial_state_def on_person_def on_event_def
      manual_shown_def toggle_def addRequirement_def updateRequirement_def indexed_update)

lemma valid_url_form:
  "trim person \<noteq> [] \<Longrightarrow> trim u \<noteq> [] \<Longrightarrow> isFormValid (url_form person u)"
  by (simp add: url_form_eq isFormValid_def)

lemma valid_manual_form:
  "trim person \<noteq> [] \<Longrightarrow> isFormValid (manual_form person)"
  by (simp add: manual_form_eq isFormValid_def) (simp add: trim_def lit_def is_white_space_def)

subsection \<open>Claims about a submission\<close>

text \<open>
  Claim C2. A submission sends a request exactly when the trimmed person name is not
  empty and, in manual mode, the trimmed event name is not empty, in URL mode, the
  trimmed event URL is not empty; this is the condition \<open>isFormValid\<close> that enables
  the submit button. When it is false the handler returns at once: it sends nothing,
  signals no loading and hands over no result.
\<close>

theorem request_sent_iff_valid:
  "(requests (handleSubmit env s) \<noteq> []) =
     (trim (personName s) \<noteq> [] \<and>
      ((useManualDetails s \<and> trim (name (eventDetails s)) \<noteq> []) \<or>
       (\<not> useManualDetails s \<and> trim (eventUrl s) \<noteq> []))) \<and>
   (requests (handleSubmit env s) \<noteq> []) = isFormValid s \<and>
   (\<not> isFormValid s \<longrightarrow>
      handleSubmit env s = [PreventDefault] \<and> requests (handleSubmit env s) = [] \<and>
      loading_signals (handleSubmit env s) = [] \<and> results (handleSubmit env s) = [])"
proof -
  have v: "isFormValid s =
     (trim (personName s) \<noteq> [] \<and>
      ((useManualDetails s \<and> trim (name (eventDetails s)) \<noteq> []) \<or>
       (\<not> useManualDetails s \<and> trim (eventUrl s) \<noteq> [])))"
    by (auto simp: isFormValid_def)
  have r: "(requests (handleSubmit env s) \<noteq> []) = isFormValid s"
  proof (cases "isFormValid s")
    case True
    then show ?thesis by (simp add: requests_valid)
  next
    case False
    then show ?thesis by (simp add: handleSubmit_invalid)
  qed
  show ?thesis
    using v r by (simp add: handleSubmit_invalid)
qed

theorem request_sent_iff_valid_witness:
  "isFormValid (url_form (lit ''Jane Doe'') (lit ''https://luma.com/x'')) \<and>
   requests (handleSubmit (env_with (Inl OtherValue))
     (url_form (lit ''Jane Doe'') (lit ''https://luma.com/x''))) \<noteq> [] \<and>
   \<not> isFormValid initial_state \<and>
   handleSubmit (env_with (Inl OtherValue)) initial_state = [PreventDefault] \<and>
   \<not> isFormValid (url_form (lit ''Jane Doe'') (lit ''  '')) \<and>
   handleSubmit (env_with (Inl OtherValue)) (url_form (lit ''Jane Doe'') (lit ''  ''))
     = [PreventDefault]"
proof -
  have a: "isFormValid (url_form (lit ''Jane Doe'') (lit ''https://luma.com/x''))"
    by (rule valid_url_form) (simp_all add: trim_def lit_def is_white_space_def)
  have b: "\<not> isFormValid initial_state"
    by (simp add: isFormValid_def initial_state_def trim_def)
  have c: "\<not> isFormValid (url_form (lit ''Jane Doe'') (lit ''  ''))"
    by (simp add: url_form_eq trim_Jane_Doe lit_nonempty isFormValid_def trim_blank)
  show ?thesis
    using a b c
      request_sent_iff_valid [of "env_with (Inl OtherValue)"
        "url_form (lit ''Jane Doe'') (lit ''https://luma.com/x'')"]
      request_sent_iff_valid [of "env_with (Inl OtherValue)" initial_state]
      request_sent_iff_valid [of "env_with (Inl OtherValue)"
        "url_form (lit ''Jane Doe'') (lit ''  '')"]
    by simp
qed

text \<open>
  Claim C3. A valid submission in manual mode sends one request whose
  \<open>event_details\<close> carry the requirements of the form without the entries that
  are blank after trimming, the kept entries in their order, and the name, type,
  audience and format of the form unchanged. The requirements \<open>["", "a", "  ", "b"]\<close>
  are sent as \<open>["a", "b"]\<close>.
\<close>

theorem manual_payload_drops_blank_requirements:
  assumes "isFormValid s" and "useManualDetails s"
  shows "\<exists>d. map body (requests (handleSubmit env s)) = [ManualBody (personName s) d] \<and>
     requirements d = filter (\<lambda>req. trim req \<noteq> []) (requirements (eventDetails s)) \<and>
     subseq (requirements d) (requirements (eventDetails s)) \<and>
     name d = name (eventDetails s) \<and> type d = type (eventDetails s) \<and>
     audience d = audience (eventDetails s) \<and> format d = format (eventDetails s)"
  using assms by (simp add: requests_valid build_request_def)

theorem manual_payload_drops_blank_requirements_witness:
  "isFormValid (manual_form (lit ''Jane Doe'')) \<and>
   useManualDetails (manual_form (lit ''Jane Doe'')) \<and>
   requirements (eventDetails (manual_form (lit ''Jane Doe'')))
     = [[], lit ''a'', lit ''  '', lit ''b''] \<and>
   map body (requests (handleSubmit (env_with (Inl OtherValue)) (manual_form (lit ''Jane Doe''))))
     = [ManualBody (lit ''Jane Doe'')
          \<lparr>name = lit ''AI Summit'', type = [], requirements = [lit ''a'', lit ''b''],
           audience = [], format = []\<rparr>]"
proof -
  have t: "trim (lit ''Jane Doe'') \<noteq> []"
    by (simp add: trim_Jane_Doe lit_nonempty)
  have v: "isFormValid (manual_form (lit ''Jane Doe''))"
    using t by (rule valid_manual_form)
  have m: "useManualDetails (manual_form (lit ''Jane Doe''))"
    by (simp add: manual_form_eq [OF t])
  have f: "filter (\<lambda>req. trim req \<noteq> []) [[], lit ''a'', lit ''  '', lit ''b'']
      = [lit ''a'', lit ''b'']"
    by (simp add: trim_def lit_def is_white_space_def)
  obtain d where d: "map body (requests (handleSubmit (env_with (Inl OtherValue))
        (manual_form (lit ''Jane Doe'')))) = [ManualBody (personName (manual_form (lit ''Jane Doe''))) d]"
      "requirements d = filter (\<lambda>req. trim req \<noteq> [])
         (requirements (eventDetails (manual_form (lit ''Jane Doe''))))"
      "name d = name (eventDetails (manual_form (lit ''Jane Doe'')))"
      "type d = type (eventDetails (manual_form (lit ''Jane Doe'')))"
      "audience d = audience (eventDetails (manual_form (lit ''Jane Doe'')))"
      "format d = format (eventDetails (manual_form (lit ''Jane Doe'')))"
    using manual_payload_drops_blank_requirements
      [OF v m, of "env_with (Inl OtherValue)"] by (elim exE conjE)
  have "d = \<lparr>name = lit ''AI Summit'', type = [], requirements = [lit ''a'', lit ''b''],
           audience = [], format = []\<rparr>"
    using d(2-6) f by (simp add: manual_form_eq [OF t])
  moreover have "personName (manual_form (lit ''Jane Doe'')) = lit ''Jane Doe''"
    "requirements (eventDetails (manual_form (lit ''Jane Doe'')))
       = [[], lit ''a'', lit ''  '', lit ''b'']"
    by (simp_all add: manual_form_eq [OF t])
  ultimately show ?thesis
    using v m d(1) by simp
qed

text \<open>
  Claim C4. For a valid submission the mode alone selects the endpoint and the shape
  of the body: manual mode posts \<open>{ person_name, event_details }\<close> to \<open>/qualify\<close>,
  URL mode posts \<open>{ person_name, event_url }\<close> to \<open>/qualify-from-url\<close>, both
  as JSON. Person \<open>"Jane Doe"\<close> with event URL \<open>"https://luma.com/x"\<close> in URL mode
  sends exactly that pair to \<open>/qualify-from-url\<close>.
\<close>

theorem endpoint_and_body_by_mode:
  assumes "isFormValid s"
  shows "(useManualDetails s \<longrightarrow>
      (\<exists>d. requests (handleSubmit env s) =
         [\<lparr>url = ''http://localhost:8000/qualify'', http_method = ''POST'',
           headers = [(''Content-Type'', ''application/json'')],
           body = ManualBody (personName s) d\<rparr>])) \<and>
     (\<not> useManualDetails s \<longrightarrow>
      requests (handleSubmit env s) =
         [\<lparr>url = ''http://localhost:8000/qualify-from-url'', http_method = ''POST'',
           headers = [(''Content-Type'', ''application/json'')],
           body = UrlBody (personName s) (eventUrl s)\<rparr>])"
  using assms by (simp add: requests_valid build_request_def)

theorem endpoint_and_body_by_mode_witness:
  "isFormValid (url_form (lit ''Jane Doe'') (lit ''https://luma.com/x'')) \<and>
   \<not> useManualDetails (url_form (lit ''Jane Doe'') (lit ''https://luma.com/x'')) \<and>
   requests (handleSubmit (env_with (Inr \<lparr>ok = True, status = 200, json = Inr sample_result\<rparr>))
     (url_form (lit ''Jane Doe'') (lit ''https://luma.com/x'')))
     = [\<lparr>url = ''http://localhost:8000/qualify-from-url'', http_method = ''POST'',
         headers = [(''Content-Type'', ''application/json'')],
         body = UrlBody (lit ''Jane Doe'') (lit ''https://luma.com/x'')\<rparr>] \<and>
   isFormValid (manual_form (lit ''Jane Doe'')) \<and>
   useManualDetails (manual_form (lit ''Jane Doe'')) \<and>
   map url (requests (handleSubmit
       (env_with (Inr \<lparr>ok = True, status = 200, json = Inr sample_result\<rparr>))
       (manual_form (lit ''Jane Doe''))))
     = [''http://localhost:8000/qualify'']"
proof -
  have t: "trim (lit ''Jane Doe'') \<noteq> []"
    by (simp add: trim_Jane_Doe lit_nonempty)
  have u: "trim (lit ''https://luma.com/x'') \<noteq> []"
    by (simp add: trim_def lit_def is_white_space_def)
  have a: "isFormValid (url_form (lit ''Jane Doe'') (lit ''https://luma.com/x''))"
    using t u by (rule valid_url_form)
  have b: "isFormValid (manual_form (lit ''Jane Doe''))"
    using t by (rule valid_manual_form)
  have c: "\<not> useManualDetails (url_form (lit ''Jane Doe'') (lit ''https://luma.com/x''))"
    by (simp add: url_form_eq [OF t])
  have d: "useManualDetails (manual_form (lit ''Jane Doe''))"
    by (simp add: manual_form_eq [OF t])
  have e: "personName (url_form (lit ''Jane Doe'') (lit ''https://luma.com/x'')) = lit ''Jane Doe''"
    "eventUrl (url_form (lit ''Jane Doe'') (lit ''https://luma.com/x'')) = lit ''https://luma.com/x''"
    by (simp_all add: url_form_eq [OF t])
  show ?thesis
    using a b c d e
      endpoint_and_body_by_mode [OF a,
        of "env_with (Inr \<lparr>ok = True, status = 200, json = Inr sample_result\<rparr>)"]
      endpoint_and_body_by_mode [OF b,
        of "env_with (Inr \<lparr>ok = True, status = 200, json = Inr sample_result\<rparr>)"]
    by auto
qed

text \<open>
  Claim C10. A valid submission sends the person name as it was entered, untrimmed,
  in URL mode and in manual mode: the input \<open>"  Jane Doe "\<close> passes validation and
  is sent with its surrounding white space.
\<close>

theorem person_name_sent_verbatim:
  assumes "isFormValid s"
  shows "map (person_name_of \<circ> body) (requests (handleSubmit env s)) = [personName s]"
  using assms by (simp add: requests_valid build_request_def)

theorem person_name_sent_verbatim_witness:
  "isFormValid (url_form (lit ''  Jane Doe '') (lit ''https://luma.com/x'')) \<and>
   map (person_name_of \<circ> body)
     (requests (handleSubmit (env_with (Inl OtherValue))
        (url_form (lit ''  Jane Doe '') (lit ''https://luma.com/x''))))
     = [lit ''  Jane Doe ''] \<and>
   isFormValid (manual_form (lit ''  Jane Doe '')) \<and>
   map (person_name_of \<circ> body)
     (requests (handleSubmit (env_with (Inl OtherValue)) (manual_form (lit ''  Jane Doe ''))))
     = [lit ''  Jane Doe ''] \<and>
   trim (lit ''  Jane Doe '') \<noteq> lit ''  Jane Doe ''"
proof -
  have t: "trim (lit ''  Jane Doe '') \<noteq> []"
    by (simp add: trim_padded_Jane_Doe lit_nonempty)
  have u: "trim (lit ''https://luma.com/x'') \<noteq> []"
    by (simp add: trim_def lit_def is_white_space_def)
  have a: "isFormValid (url_form (lit ''  Jane Doe '') (lit ''https://luma.com/x''))"
    using t u by (rule valid_url_form)
  have b: "isFormValid (manual_form (lit ''  Jane Doe ''))"
    using t by (rule valid_manual_form)
  have c: "personName (url_form (lit ''  Jane Doe '') (lit ''https://luma.com/x'')) = lit ''  Jane Doe ''"
    "personName (manual_form (lit ''  Jane Doe '')) = lit ''  Jane Doe ''"
    by (simp_all add: url_form_eq [OF t] manual_form_eq [OF t])
  have d: "trim (lit ''  Jane Doe '') \<noteq> lit ''  Jane Doe ''"
    by (simp add: trim_padded_Jane_Doe) (simp add: lit_def)
  show ?thesis
    using a b c d
      person_name_sent_verbatim [OF a, of "env_with (Inl OtherValue)"]
      person_name_sent_verbatim [OF b, of "env_with (Inl OtherValue)"]
    by simp
qed

text \<open>
  Claim C1. In a valid submission whose request fails, the caller receives a result
  built on the spot: \<open>error\<close> is set, to \<open>HTTP error! status: \<close> followed by the
  status code in decimal (digits only, which read back give the status) for a
  response that is not ok, and to the message of the thrown error
  (or \<open>Unknown error\<close> when the thrown value is not an error) for a rejected
  \<open>fetch\<close> or an unreadable body; the score and the number of searches are 0, the
  sources are empty and the timestamp is the current time. A readable body of an ok
  response is handed over as it is. In every case the failure is caught: the caller
  receives exactly one result, and loading is signalled on once and off once.
\<close>

theorem failed_outcome_is_normalised:
  assumes "isFormValid s"
  shows
    "let failure = (\<lambda>m. \<lparr>person_name = personName s, qualification_score = Fin 0,
                           qualification_reasoning = lit ''Error occurred: '' @ m,
                           searches_performed = Fin 0, information_sources = [],
                           timestamp = now env, error = Some m\<rparr>);
         outcome = fetch env (build_request s);
         trace = handleSubmit env s
     in (\<forall>m. outcome = Inl (ErrorObject m) \<longrightarrow> results trace = [failure m]) \<and>
        (outcome = Inl OtherValue \<longrightarrow> results trace = [failure (lit ''Unknown error'')]) \<and>
        (\<forall>r. outcome = Inr r \<and> \<not> ok r \<longrightarrow>
           results trace =
             [failure (lit ''HTTP error! status: '' @ lit (number_to_string (status r)))] \<and>
           set (number_to_string (status r)) \<subseteq> set ''0123456789'' \<and>
           foldl (\<lambda>a c. 10 * a + (unat c - 48)) 0 (lit (number_to_string (status r)))
             = status r) \<and>
        (\<forall>r m. outcome = Inr r \<and> ok r \<and> json r = Inl (ErrorObject m) \<longrightarrow>
           results trace = [failure m]) \<and>
        (\<forall>r. outcome = Inr r \<and> ok r \<and> json r = Inl OtherValue \<longrightarrow>
           results trace = [failure (lit ''Unknown error'')]) \<and>
        (\<forall>r q. outcome = Inr r \<and> ok r \<and> json r = Inr q \<longrightarrow> results trace = [q]) \<and>
        length (results trace) = 1 \<and>
        loading_signals trace = [True, False] \<and>
        last trace = LoadingChange False"
proof -
  let ?failure = "\<lambda>m. \<lparr>person_name = personName s, qualification_score = Fin 0,
                           qualification_reasoning = lit ''Error occurred: '' @ m,
                           searches_performed = Fin 0, information_sources = [],
                           timestamp = now env, error = Some m\<rparr>"
  let ?outcome = "fetch env (build_request s)"
  let ?trace = "handleSubmit env s"
  note v = handleSubmit_valid [OF assms, of env]
  have transport: "results ?trace = [?failure (error_message e)]" if "?outcome = Inl e" for e
    using that by (simp add: v settle_cases)
  have http: "results ?trace =
      [?failure (lit ''HTTP error! status: '' @ lit (number_to_string (status r)))]"
    if "?outcome = Inr r" "\<not> ok r" for r
    using that by (simp add: v settle_cases error_message_def)
  have parse: "results ?trace = [?failure (error_message e)]"
    if "?outcome = Inr r" "ok r" "json r = Inl e" for r e
    using that by (simp add: v settle_cases)
  have pass: "results ?trace = [q]" if "?outcome = Inr r" "ok r" "json r = Inr q" for r q
    using that by (simp add: v settle_cases)
  have msg: "error_message (ErrorObject m) = m" "error_message OtherValue = lit ''Unknown error''"
    for m
    by (simp_all add: error_message_def)
  have c1: "\<forall>m. ?outcome = Inl (ErrorObject m) \<longrightarrow> results ?trace = [?failure m]"
    using transport msg(1) by metis
  have c2: "?outcome = Inl OtherValue \<longrightarrow> results ?trace = [?failure (lit ''Unknown error'')]"
    using transport [of OtherValue] msg(2) by simp
  have c3: "\<forall>r. ?outcome = Inr r \<and> \<not> ok r \<longrightarrow>
      results ?trace =
        [?failure (lit ''HTTP error! status: '' @ lit (number_to_string (status r)))] \<and>
      set (number_to_string (status r)) \<subseteq> set ''0123456789'' \<and>
      foldl (\<lambda>a c. 10 * a + (unat c - 48)) 0 (lit (number_to_string (status r))) = status r"
  proof (intro allI impI)
    fix r
    assume h: "?outcome = Inr r \<and> \<not> ok r"
    have "results ?trace =
        [?failure (lit ''HTTP error! status: '' @ lit (number_to_string (status r)))]"
      using h http by blast
    moreover have "set (number_to_string (status r)) \<subseteq> set ''0123456789''"
      by (rule number_to_string_digits)
    moreover have
      "foldl (\<lambda>a c. 10 * a + (unat c - 48)) 0 (lit (number_to_string (status r))) = status r"
      by (rule code_units_read_back)
    ultimately show "results ?trace =
        [?failure (lit ''HTTP error! status: '' @ lit (number_to_string (status r)))] \<and>
      set (number_to_string (status r)) \<subseteq> set ''0123456789'' \<and>
      foldl (\<lambda>a c. 10 * a + (unat c - 48)) 0 (lit (number_to_string (status r))) = status r"
      by (intro conjI)
  qed
  have c4: "\<forall>r m. ?outcome = Inr r \<and> ok r \<and> json r = Inl (ErrorObject m) \<longrightarrow>
      results ?trace = [?failure m]"
    using parse msg(1) by metis
  have c5: "\<forall>r. ?outcome = Inr r \<and> ok r \<and> json r = Inl OtherValue \<longrightarrow>
      results ?trace = [?failure (lit ''Unknown error'')]"
    using parse [of _ OtherValue] msg(2) by simp
  have c6: "\<forall>r q. ?outcome = Inr r \<and> ok r \<and> json r = Inr q \<longrightarrow> results ?trace = [q]"
    using pass by blast
  have c7: "length (results ?trace) = 1"
    using assms by (rule one_result)
  have c8: "loading_signals ?trace = [True, False]"
    using assms by (rule loading_once)
  have c9: "last ?trace = LoadingChange False"
    by (simp add: v)
  show ?thesis
    unfolding Let_def using c1 c2 c3 c4 c5 c6 c7 c8 c9 by (intro conjI)
qed

theorem failed_outcome_is_normalised_witness:
  "isFormValid (url_form (lit ''Jane Doe'') (lit ''https://luma.com/x'')) \<and>
   results (handleSubmit (env_with (Inr \<lparr>ok = False, status = 500, json = Inl OtherValue\<rparr>))
      (url_form (lit ''Jane Doe'') (lit ''https://luma.com/x'')))
     = [\<lparr>person_name = lit ''Jane Doe'', qualification_score = Fin 0,
         qualification_reasoning = lit ''Error occurred: '' @ lit ''HTTP error! status: 500'',
         searches_performed = Fin 0, information_sources = [],
         timestamp = lit ''2025-01-01T00:00:00.000Z'',
         error = Some (lit ''HTTP error! status: 500'')\<rparr>] \<and>
   sublist (lit ''500'') (lit ''HTTP error! status: 500'') \<and>
   results (handleSubmit (env_with (Inr \<lparr>ok = False, status = 404, json = Inl OtherValue\<rparr>))
      (url_form (lit ''Jane Doe'') (lit ''https://luma.com/x'')))
     = [\<lparr>person_name = lit ''Jane Doe'', qualification_score = Fin 0,
         qualification_reasoning = lit ''Error occurred: '' @ lit ''HTTP error! status: 404'',
         searches_performed = Fin 0, information_sources = [],
         timestamp = lit ''2025-01-01T00:00:00.000Z'',
         error = Some (lit ''HTTP error! status: 404'')\<rparr>] \<and>
   results (handleSubmit (env_with (Inr \<lparr>ok = False, status = 503, json = Inr sample_result\<rparr>))
      (url_form (lit ''Jane Doe'') (lit ''https://luma.com/x'')))
     = [\<lparr>person_name = lit ''Jane Doe'', qualification_score = Fin 0,
         qualification_reasoning = lit ''Error occurred: '' @ lit ''HTTP error! status: 503'',
         searches_performed = Fin 0, information_sources = [],
         timestamp = lit ''2025-01-01T00:00:00.000Z'',
         error = Some (lit ''HTTP error! status: 503'')\<rparr>] \<and>
   lit ''HTTP error! status: 404'' \<noteq> lit ''HTTP error! status: 500'' \<and>
   foldl (\<lambda>a c. 10 * a + (unat c - 48)) 0 (lit ''404'') = (404::nat) \<and>
   results (handleSubmit (env_with (Inl (ErrorObject (lit ''fetch failed''))))
      (url_form (lit ''Jane Doe'') (lit ''https://luma.com/x'')))
     = [\<lparr>person_name = lit ''Jane Doe'', qualification_score = Fin 0,
         qualification_reasoning = lit ''Error occurred: '' @ lit ''fetch failed'',
         searches_performed = Fin 0, information_sources = [],
         timestamp = lit ''2025-01-01T00:00:00.000Z'',
         error = Some (lit ''fetch failed'')\<rparr>] \<and>
   results (handleSubmit (env_with (Inl OtherValue))
      (url_form (lit ''Jane Doe'') (lit ''https://luma.com/x'')))
     = [\<lparr>person_name = lit ''Jane Doe'', qualification_score = Fin 0,
         qualification_reasoning = lit ''Error occurred: '' @ lit ''Unknown error'',
         searches_performed = Fin 0, information_sources = [],
         timestamp = lit ''2025-01-01T00:00:00.000Z'',
         error = Some (lit ''Unknown error'')\<rparr>] \<and>
   results (handleSubmit
      (env_with (Inr \<lparr>ok = True, status = 200,
                       json = Inl (ErrorObject (lit ''Unexpected end of JSON input''))\<rparr>))
      (url_form (lit ''Jane Doe'') (lit ''https://luma.com/x'')))
     = [\<lparr>person_name = lit ''Jane Doe'', qualification_score = Fin 0,
         qualification_reasoning = lit ''Error occurred: '' @ lit ''Unexpected end of JSON input'',
         searches_performed = Fin 0, information_sources = [],
         timestamp = lit ''2025-01-01T00:00:00.000Z'',
         error = Some (lit ''Unexpected end of JSON input'')\<rparr>] \<and>
   results (handleSubmit
      (env_with (Inr \<lparr>ok = True, status = 200, json = Inl OtherValue\<rparr>))
      (url_form (lit ''Jane Doe'') (lit ''https://luma.com/x'')))
     = [\<lparr>person_name = lit ''Jane Doe'', qualification_score = Fin 0,
         qualification_reasoning = lit ''Error occurred: '' @ lit ''Unknown error'',
         searches_performed = Fin 0, information_sources = [],
         timestamp = lit ''2025-01-01T00:00:00.000Z'',
         error = Some (lit ''Unknown error'')\<rparr>] \<and>
   results (handleSubmit
      (env_with (Inr \<lparr>ok = True, status = 200, json = Inr sample_result\<rparr>))
      (url_form (lit ''Jane Doe'') (lit ''https://luma.com/x'')))
     = [sample_result]"
proof -
  let ?s = "url_form (lit ''Jane Doe'') (lit ''https://luma.com/x'')"
  have t: "trim (lit ''Jane Doe'') \<noteq> []"
    by (simp add: trim_Jane_Doe lit_nonempty)
  have u: "trim (lit ''https://luma.com/x'') \<noteq> []"
    by (simp add: trim_def lit_def is_white_space_def)
  have v: "isFormValid ?s"
    using t u by (rule valid_url_form)
  have p: "personName ?s = lit ''Jane Doe''"
    by (simp add: url_form_eq [OF t])
  have n: "lit (number_to_string 500) = lit ''500''" "lit (number_to_string 404) = lit ''404''"
    "lit (number_to_string 503) = lit ''503''"
    by (simp_all add: digit_def)
  have "lit ''HTTP error! status: 500'' = lit ''HTTP error! status: '' @ lit ''500'' @ []"
    by (simp add: lit_def)
  then have c: "sublist (lit ''500'') (lit ''HTTP error! status: 500'')"
    by (simp only: sublist_appendI)
  have h: "lit ''HTTP error! status: '' @ lit ''500'' = lit ''HTTP error! status: 500''"
    "lit ''HTTP error! status: '' @ lit ''404'' = lit ''HTTP error! status: 404''"
    "lit ''HTTP error! status: '' @ lit ''503'' = lit ''HTTP error! status: 503''"
    by (simp_all add: lit_def)
  have d: "lit ''HTTP error! status: 404'' \<noteq> lit ''HTTP error! status: 500''"
    by (simp add: lit_def)
  show ?thesis
    using v p n c h d
      failed_outcome_is_normalised [OF v,
        of "env_with (Inr \<lparr>ok = False, status = 500, json = Inl OtherValue\<rparr>)"]
      failed_outcome_is_normalised [OF v,
        of "env_with (Inr \<lparr>ok = False, status = 404, json = Inl OtherValue\<rparr>)"]
      failed_outcome_is_normalised [OF v,
        of "env_with (Inr \<lparr>ok = False, status = 503, json = Inr sample_result\<rparr>)"]
      failed_outcome_is_normalised [OF v,
        of "env_with (Inl (ErrorObject (lit ''fetch failed'')))"]
      failed_outcome_is_normalised [OF v, of "env_with (Inl OtherValue)"]
      failed_outcome_is_normalised [OF v,
        of "env_with (Inr \<lparr>ok = True, status = 200,
              json = Inl (ErrorObject (lit ''Unexpected end of JSON input''))\<rparr>)"]
      failed_outcome_is_normalised [OF v,
        of "env_with (Inr \<lparr>ok = True, status = 200, json = Inl OtherValue\<rparr>)"]
      failed_outcome_is_normalised [OF v,
        of "env_with (Inr \<lparr>ok = True, status = 200, json = Inr sample_result\<rparr>)"]
    by (simp add: Let_def env_with_def)
qed

end
